theory Spec2Isabelle
  imports Main "HOL-Library.Sublist"
begin

section \<open>Python strings\<close>

text \<open>
  A Python \<open>str\<close> is a sequence of code points and \<open>len\<close> counts them. The model
  uses \<open>string\<close> with one \<open>char\<close> per code point, so it covers the code points
  below 256. On that range \<open>str.isspace\<close> holds for 9..13, 28..32, 133 and 160, and
  \<open>str.lower\<close> moves A..Z and the capital letters 192..222 (without the
  multiplication sign 215) up by 32 and leaves every other code point alone.
\<close>

definition isspace :: "char \<Rightarrow> bool" where
  "isspace c =
     (let n = (of_char c :: nat)
      in (9 \<le> n \<and> n \<le> 13) \<or> (28 \<le> n \<and> n \<le> 32) \<or> n = 133 \<or> n = 160)"

definition lower_char :: "char \<Rightarrow> char" where
  "lower_char c =
     (let n = (of_char c :: nat)
      in if (65 \<le> n \<and> n \<le> 90) \<or> (192 \<le> n \<and> n \<le> 222 \<and> n \<noteq> 215)
         then char_of (n + 32) else c)"

definition py_lower :: "string \<Rightarrow> string" where
  "py_lower s = map lower_char s"

definition py_strip :: "string \<Rightarrow> string" where
  "py_strip s = rev (dropWhile isspace (rev (dropWhile isspace s)))"

text \<open>\<open>s.split()\<close>: the maximal runs of non-whitespace, in order.\<close>

fun split_from :: "string \<Rightarrow> string \<Rightarrow> string list" where
  "split_from cur [] = (if cur = [] then [] else [rev cur])"
| "split_from cur (c # cs) =
     (if isspace c
      then (if cur = [] then split_from [] cs else rev cur # split_from [] cs)
      else split_from (c # cur) cs)"

definition py_split :: "string \<Rightarrow> string list" where
  "py_split s = split_from [] s"

text \<open>\<open>p in s\<close> on strings: \<open>p\<close> occurs in \<open>s\<close> as a contiguous block.\<close>

fun starts_with :: "string \<Rightarrow> string \<Rightarrow> bool" where
  "starts_with [] s = True"
| "starts_with (p # ps) [] = False"
| "starts_with (p # ps) (c # cs) = (p = c \<and> starts_with ps cs)"

fun str_in :: "string \<Rightarrow> string \<Rightarrow> bool" where
  "str_in p [] = (p = [])"
| "str_in p (c # cs) = (starts_with p (c # cs) \<or> str_in p cs)"

text \<open>\<open>s[:n]\<close>: a negative \<open>n\<close> counts from the end.\<close>

definition py_slice_to :: "int \<Rightarrow> string \<Rightarrow> string" where
  "py_slice_to n s =
     (if 0 \<le> n then take (nat n) s else take (length s - nat (- n)) s)"

section \<open>config.py\<close>

text \<open>
  \<open>SecurityConfig.MAX_INPUT_LENGTH\<close> is read from the environment when the module is
  loaded, with 1000 as the default; the functions below take it as the argument \<open>mx\<close>.
\<close>

definition default_MAX_INPUT_LENGTH :: int where
  "default_MAX_INPUT_LENGTH = 1000"

definition validate_input_length :: "int \<Rightarrow> string \<Rightarrow> bool" where
  "validate_input_length mx text = (int (length text) \<le> mx)"

section \<open>The library objects held by the memory manager\<close>

text \<open>
  The LangChain classes are not part of the repository. They are modelled by what the
  repository's code relies on:
  \<^item> \<open>memory.chat_memory.messages\<close> is a list; \<open>add_message\<close> appends to it and
    \<open>memory.clear()\<close> empties it. The \<open>k\<close> of the buffer-window class only trims the
    view that \<open>load_memory_variables\<close> builds (the last \<open>2 * k\<close> messages), never the
    list itself.
  \<^item> the summary memory holds its own message list and a text buffer;
    \<open>save_context\<close> appends the input and output to the list and replaces the buffer by
    what the summarizing model makes of the old buffer and the new input; \<open>clear()\<close>
    empties both.
  \<^item> the two model calls (the chain's \<open>predict\<close> and the summarizer) are external: each
    either raises, with the text \<open>str(e)\<close> of the exception, or returns a text.
  \<^item> the conversation chain is built with \<open>memory = self.memory_manager.memory\<close>, the
    object whose message list the manager appends to and counts. A call of \<open>predict\<close>
    that returns has saved its exchange to that list (the library's \<open>save_context\<close>: a
    human message with the input as given, then an AI message with the output); a call
    that raises has saved nothing.
  \<^item> \<open>datetime.now().isoformat()\<close> is a reading of the wall clock, passed in as an
    argument.
\<close>

datatype message = HumanMessage string | AIMessage string

fun content :: "message \<Rightarrow> string" where
  "content (HumanMessage c) = c"
| "content (AIMessage c) = c"

fun is_human_message :: "message \<Rightarrow> bool" where
  "is_human_message (HumanMessage c) = True"
| "is_human_message (AIMessage c) = False"

type_synonym timestamp = nat

type_synonym summarizer = "string \<Rightarrow> string \<Rightarrow> string + string"

datatype predict_outcome = Raises string | Returns string

record summary_memory =
  summary_messages :: "message list"
  buffer :: string

definition summary_save_context ::
  "summarizer \<Rightarrow> string \<Rightarrow> string \<Rightarrow> summary_memory \<Rightarrow> string option \<times> summary_memory"
where
  "summary_save_context summ inp out sm =
     (let sm1 = sm\<lparr>summary_messages := summary_messages sm @ [HumanMessage inp, AIMessage out]\<rparr>
      in case summ (buffer sm) inp of
           Inl e \<Rightarrow> (Some e, sm1)
         | Inr d \<Rightarrow> (None, sm1\<lparr>buffer := d\<rparr>))"

definition summary_clear :: "summary_memory \<Rightarrow> summary_memory" where
  "summary_clear sm = \<lparr>summary_messages = [], buffer = []\<rparr>"

section \<open>memory\_manager.py\<close>

record metadata =
  start_time :: timestamp
  message_count :: int
  total_tokens :: int

record manager =
  chat_memory :: "message list"
  summary_mem :: summary_memory
  conversation_metadata :: metadata

definition init :: "timestamp \<Rightarrow> manager" where
  "init now =
     \<lparr>chat_memory = [],
      summary_mem = \<lparr>summary_messages = [], buffer = []\<rparr>,
      conversation_metadata = \<lparr>start_time = now, message_count = 0, total_tokens = 0\<rparr>\<rparr>"

definition sanitize_message :: "int \<Rightarrow> string \<Rightarrow> string" where
  "sanitize_message mx message =
     (let sanitized = py_strip message
      in if int (length sanitized) > mx then py_slice_to mx sanitized else sanitized)"

definition add_message :: "int \<Rightarrow> string \<Rightarrow> bool \<Rightarrow> manager \<Rightarrow> bool \<times> manager" where
  "add_message mx message is_human s =
     (if \<not> validate_input_length mx message then (False, s)
      else
        let sanitized_message = sanitize_message mx message;
            msg_obj = (if is_human then HumanMessage sanitized_message
                       else AIMessage sanitized_message);
            md = conversation_metadata s
        in (True,
            s\<lparr>chat_memory := chat_memory s @ [msg_obj],
              conversation_metadata :=
                md\<lparr>message_count := message_count md + 1,
                   total_tokens := total_tokens md + int (length (py_split sanitized_message))\<rparr>\<rparr>))"

text \<open>\<open>memory.load_memory_variables\<close> with \<open>k = 10\<close>: the last 20 stored messages.\<close>

definition get_memory_variables :: "manager \<Rightarrow> message list" where
  "get_memory_variables s = drop (length (chat_memory s) - 20) (chat_memory s)"

text \<open>
  The loop of \<open>get_conversation_summary\<close>; an exception of the summarizer leaves the
  loop with its text, keeping what the earlier rounds stored. The summary memory is built
  with \<open>return_messages=True\<close>, so what the source returns under the key \<open>history\<close> is
  a one-element list holding a system message whose content is the buffer; the model
  returns that content.
\<close>

fun summary_loop ::
  "summarizer \<Rightarrow> message list \<Rightarrow> summary_memory \<Rightarrow> string option \<times> summary_memory"
where
  "summary_loop summ [] sm = (None, sm)"
| "summary_loop summ (HumanMessage c # ms) sm =
     (case summary_save_context summ c [] sm of
        (Some e, sm') \<Rightarrow> (Some e, sm')
      | (None, sm') \<Rightarrow> summary_loop summ ms sm')"
| "summary_loop summ (AIMessage c # ms) sm = summary_loop summ ms sm"

definition get_conversation_summary :: "summarizer \<Rightarrow> manager \<Rightarrow> string \<times> manager" where
  "get_conversation_summary summ s =
     (if chat_memory s = [] then (''No conversation history available.'', s)
      else case summary_loop summ (chat_memory s) (summary_mem s) of
             (Some e, sm') \<Rightarrow> (''Error generating conversation summary.'', s\<lparr>summary_mem := sm'\<rparr>)
           | (None, sm') \<Rightarrow> (buffer sm', s\<lparr>summary_mem := sm'\<rparr>))"

definition clear_memory :: "timestamp \<Rightarrow> manager \<Rightarrow> bool \<times> manager" where
  "clear_memory now s =
     (True,
      s\<lparr>chat_memory := [],
        summary_mem := summary_clear (summary_mem s),
        conversation_metadata := \<lparr>start_time = now, message_count = 0, total_tokens = 0\<rparr>\<rparr>)"

record memory_stats =
  total_messages :: nat
  stats_metadata :: metadata
  memory_type :: string
  window_size :: nat
  has_summary :: bool

definition get_memory_stats :: "manager \<Rightarrow> memory_stats" where
  "get_memory_stats s =
     \<lparr>total_messages = length (chat_memory s),
      stats_metadata = conversation_metadata s,
      memory_type = ''ConversationBufferWindowMemory'',
      window_size = 10,
      has_summary = (length (summary_messages (summary_mem s)) > 0)\<rparr>"

record export_entry =
  entry_type :: string
  entry_content :: string
  entry_timestamp :: timestamp

record exported_data =
  export_messages :: "export_entry list"
  export_metadata :: metadata
  export_summary :: string

text \<open>
  \<open>export_memory\<close> reads the clock once for every message it lists; \<open>clock i\<close> is the
  reading for the entry at position \<open>i\<close>.
\<close>

definition export_entry_of :: "(nat \<Rightarrow> timestamp) \<Rightarrow> nat \<times> message \<Rightarrow> export_entry" where
  "export_entry_of clock im =
     \<lparr>entry_type = (if is_human_message (snd im) then ''human'' else ''ai''),
      entry_content = content (snd im),
      entry_timestamp = clock (fst im)\<rparr>"

definition export_memory ::
  "summarizer \<Rightarrow> (nat \<Rightarrow> timestamp) \<Rightarrow> manager \<Rightarrow> exported_data \<times> manager"
where
  "export_memory summ clock s =
     (let msgs = map (export_entry_of clock) (enumerate 0 (chat_memory s));
          md = conversation_metadata s;
          (summary, s') = get_conversation_summary summ s
      in (\<lparr>export_messages = msgs, export_metadata = md, export_summary = summary\<rparr>, s'))"

section \<open>chatbot.py\<close>

definition dangerous_patterns :: "string list" where
  "dangerous_patterns =
     [''script'', ''javascript:'', ''data:'', ''vbscript:'',
      ''<script'', ''</script>'', ''onload='', ''onerror='']"

text \<open>The \<open>for\<close> loop over the patterns, leaving at the first hit.\<close>

fun pattern_loop :: "string list \<Rightarrow> string \<Rightarrow> bool" where
  "pattern_loop [] input_lower = True"
| "pattern_loop (pattern # rest) input_lower =
     (if str_in pattern input_lower then False else pattern_loop rest input_lower)"

definition validate_input :: "int \<Rightarrow> string \<Rightarrow> bool" where
  "validate_input mx user_input =
     (if \<not> validate_input_length mx user_input then False
      else if py_strip user_input = [] then False
      else pattern_loop dangerous_patterns (py_lower user_input))"

record chat_result =
  response :: string
  success :: bool
  error :: "string option"
  result_stats :: "memory_stats option"
  conversation_summary :: "string option"

definition invalid_input_result :: chat_result where
  "invalid_input_result =
     \<lparr>response = ''I'm sorry, but your input doesn't meet our security requirements. Please try a shorter message.'',
      success = False,
      error = Some ''Input validation failed'',
      result_stats = None,
      conversation_summary = None\<rparr>"

definition memory_failed_result :: chat_result where
  "memory_failed_result =
     \<lparr>response = ''I'm sorry, but I couldn't process your message. Please try again.'',
      success = False,
      error = Some ''Failed to add message to memory'',
      result_stats = None,
      conversation_summary = None\<rparr>"

definition exception_result :: "string \<Rightarrow> chat_result" where
  "exception_result e =
     \<lparr>response = ''I'm sorry, but I encountered an error. Please try again.'',
      success = False,
      error = Some e,
      result_stats = None,
      conversation_summary = None\<rparr>"

text \<open>
  \<open>conversation_chain.predict\<close>: \<open>llm\<close> is what the model does on this call. When it
  returns, the chain has appended the input and the reply to the shared message list,
  unsanitized and without touching the metadata.
\<close>

definition predict ::
  "predict_outcome \<Rightarrow> string \<Rightarrow> manager \<Rightarrow> (string + string) \<times> manager"
where
  "predict llm user_input s =
     (case llm of
        Raises e \<Rightarrow> (Inl e, s)
      | Returns reply \<Rightarrow>
          (Inr reply,
           s\<lparr>chat_memory := chat_memory s @ [HumanMessage user_input, AIMessage reply]\<rparr>))"

text \<open>
  \<open>chat\<close>. The statistics are taken before the summary is computed, as in the source.
\<close>

definition chat ::
  "int \<Rightarrow> summarizer \<Rightarrow> predict_outcome \<Rightarrow> string \<Rightarrow> manager \<Rightarrow> chat_result \<times> manager"
where
  "chat mx summ llm user_input s =
     (if \<not> validate_input mx user_input then (invalid_input_result, s)
      else
        case add_message mx user_input True s of
          (False, s1) \<Rightarrow> (memory_failed_result, s1)
        | (True, s1) \<Rightarrow>
            (case predict llm user_input s1 of
               (Inl e, s1') \<Rightarrow> (exception_result e, s1')
             | (Inr reply, s1') \<Rightarrow>
                 let s2 = snd (add_message mx reply False s1');
                     stats = get_memory_stats s2;
                     (summary, s3) = get_conversation_summary summ s2
                 in (\<lparr>response = reply, success = True, error = None,
                      result_stats = Some stats, conversation_summary = Some summary\<rparr>, s3)))"

text \<open>A session: the calls of \<open>chat\<close> in order, each with what the model did.\<close>

fun run_chats ::
  "int \<Rightarrow> summarizer \<Rightarrow> (string \<times> predict_outcome) list \<Rightarrow> manager \<Rightarrow> chat_result list \<times> manager"
where
  "run_chats mx summ [] s = ([], s)"
| "run_chats mx summ ((user_input, llm) # calls) s =
     (let (r, s1) = chat mx summ llm user_input s;
          (rs, s2) = run_chats mx summ calls s1
      in (r # rs, s2))"

section \<open>Vocabulary for the statements\<close>

text \<open>
  The digest the spec describes: \<open>summarize(existing_digest, new_text)\<close> folded over a
  list of texts, starting from a given digest and stopping at the first failure.
\<close>

fun refold :: "summarizer \<Rightarrow> string \<Rightarrow> string list \<Rightarrow> string + string" where
  "refold summ digest [] = Inr digest"
| "refold summ digest (t # ts) =
     (case summ digest t of Inl e \<Rightarrow> Inl e | Inr d \<Rightarrow> refold summ d ts)"

definition human_texts :: "message list \<Rightarrow> string list" where
  "human_texts ms = map content (filter is_human_message ms)"

text \<open>Role tags that alternate, starting with a human one.\<close>

fun alternates :: "string list \<Rightarrow> bool" where
  "alternates [] = True"
| "alternates [h] = (h = ''human'')"
| "alternates (h # a # rest) = (h = ''human'' \<and> a = ''ai'' \<and> alternates rest)"

text \<open>
  Stand-ins for the external parts in concrete runs: a summarizer that appends the new
  text to the digest, one that always raises, and a clock that advances by one with
  every reading.
\<close>

definition appending_summarizer :: summarizer where
  "appending_summarizer digest new_text = Inr (digest @ new_text)"

definition failing_summarizer :: "string \<Rightarrow> summarizer" where
  "failing_summarizer e digest new_text = Inl e"

definition clock_from :: "timestamp \<Rightarrow> nat \<Rightarrow> timestamp" where
  "clock_from t i = t + i"

section \<open>Facts about the string functions\<close>

lemma starts_with_iff: "starts_with p s \<longleftrightarrow> (\<exists>b. s = p @ b)"
  by (induction p s rule: starts_with.induct) auto

lemma str_in_iff: "str_in p s \<longleftrightarrow> (\<exists>a b. s = a @ p @ b)"
proof (induction s)
  case Nil
  then show ?case by auto
next
  case (Cons c cs)
  show ?case
  proof
    assume "str_in p (c # cs)"
    then consider "starts_with p (c # cs)" | "str_in p cs" by auto
    then show "\<exists>a b. c # cs = a @ p @ b"
    proof cases
      case 1
      then obtain b where "c # cs = p @ b" by (auto simp: starts_with_iff)
      then have "c # cs = [] @ p @ b" by simp
      then show ?thesis by blast
    next
      case 2
      then obtain a b where "cs = a @ p @ b" using Cons.IH by auto
      then have "c # cs = (c # a) @ p @ b" by simp
      then show ?thesis by blast
    qed
  next
    assume "\<exists>a b. c # cs = a @ p @ b"
    then obtain a b where ab: "c # cs = a @ p @ b" by blast
    show "str_in p (c # cs)"
    proof (cases a)
      case Nil
      with ab have "starts_with p (c # cs)" by (auto simp: starts_with_iff)
      then show ?thesis by simp
    next
      case (Cons x a')
      with ab have "cs = a' @ p @ b" by simp
      then have "str_in p cs" using Cons.IH by blast
      then show ?thesis by simp
    qed
  qed
qed

lemma pattern_loop_iff: "pattern_loop ps l \<longleftrightarrow> (\<forall>p\<in>set ps. \<not> str_in p l)"
  by (induction ps) auto

lemma dropWhile_all_space: "(\<forall>c\<in>set (dropWhile P s). P c) \<longleftrightarrow> dropWhile P s = []"
proof
  assume a: "\<forall>c\<in>set (dropWhile P s). P c"
  show "dropWhile P s = []"
  proof (rule ccontr)
    assume n: "dropWhile P s \<noteq> []"
    then have "\<not> P (hd (dropWhile P s))" by (rule hd_dropWhile)
    moreover have "hd (dropWhile P s) \<in> set (dropWhile P s)" using n by simp
    ultimately show False using a by blast
  qed
next
  assume "dropWhile P s = []"
  then show "\<forall>c\<in>set (dropWhile P s). P c" by (simp del: dropWhile_eq_Nil_conv)
qed

lemma py_strip_empty_iff: "py_strip s = [] \<longleftrightarrow> (\<forall>c\<in>set s. isspace c)"
proof -
  have "py_strip s = [] \<longleftrightarrow> (\<forall>c\<in>set (dropWhile isspace s). isspace c)"
    by (simp add: py_strip_def dropWhile_eq_Nil_conv)
  also have "\<dots> \<longleftrightarrow> dropWhile isspace s = []" by (rule dropWhile_all_space)
  also have "\<dots> \<longleftrightarrow> (\<forall>c\<in>set s. isspace c)" by (simp add: dropWhile_eq_Nil_conv)
  finally show ?thesis .
qed

lemma py_strip_decomp:
  "\<exists>l r. s = l @ py_strip s @ r \<and> (\<forall>c\<in>set l. isspace c) \<and> (\<forall>c\<in>set r. isspace c)"
proof -
  let ?l = "takeWhile isspace s"
  let ?m = "dropWhile isspace s"
  let ?r = "rev (takeWhile isspace (rev ?m))"
  have "rev ?m = takeWhile isspace (rev ?m) @ dropWhile isspace (rev ?m)" by simp
  then have "?m = rev (dropWhile isspace (rev ?m)) @ ?r"
    by (metis rev_append rev_rev_ident)
  then have "s = ?l @ py_strip s @ ?r"
    by (metis py_strip_def takeWhile_dropWhile_id)
  moreover have "\<forall>c\<in>set ?l. isspace c" by (auto dest: set_takeWhileD)
  moreover have "\<forall>c\<in>set ?r. isspace c" by (auto dest: set_takeWhileD)
  ultimately show ?thesis by blast
qed

lemma py_strip_last: "py_strip s \<noteq> [] \<Longrightarrow> \<not> isspace (last (py_strip s))"
proof -
  assume n: "py_strip s \<noteq> []"
  let ?d = "dropWhile isspace (rev (dropWhile isspace s))"
  from n have d: "?d \<noteq> []" by (simp add: py_strip_def)
  then have "\<not> isspace (hd ?d)" by (rule hd_dropWhile)
  moreover have "last (py_strip s) = hd ?d" using d by (simp add: py_strip_def last_rev)
  ultimately show ?thesis by simp
qed

lemma py_strip_hd: "py_strip s \<noteq> [] \<Longrightarrow> \<not> isspace (hd (py_strip s))"
proof -
  assume n: "py_strip s \<noteq> []"
  let ?m = "dropWhile isspace s"
  have "rev ?m = takeWhile isspace (rev ?m) @ dropWhile isspace (rev ?m)" by simp
  then have "?m = py_strip s @ rev (takeWhile isspace (rev ?m))"
    unfolding py_strip_def by (metis rev_append rev_rev_ident)
  with n have "hd ?m = hd (py_strip s)" and "?m \<noteq> []" by (metis hd_append2, metis append_is_Nil_conv)
  moreover from \<open>?m \<noteq> []\<close> have "\<not> isspace (hd ?m)" by (rule hd_dropWhile)
  ultimately show ?thesis by simp
qed

lemma length_py_strip: "length (py_strip s) \<le> length s"
proof -
  have "length (py_strip s) \<le> length (rev (dropWhile isspace s))"
    unfolding py_strip_def length_rev[of "dropWhile isspace (rev (dropWhile isspace s))"]
    by (rule length_dropWhile_le)
  also have "\<dots> \<le> length s" unfolding length_rev by (rule length_dropWhile_le)
  finally show ?thesis .
qed

section \<open>Input validation\<close>

lemma validate_input_unfold:
  "validate_input mx user_input \<longleftrightarrow>
     int (length user_input) \<le> mx \<and> py_strip user_input \<noteq> [] \<and>
     (\<forall>p\<in>set dangerous_patterns. \<not> str_in p (py_lower user_input))"
  by (simp add: validate_input_def validate_input_length_def pattern_loop_iff)

lemma validate_input_false_gen:
  "validate_input mx user_input = False \<longleftrightarrow>
     (int (length user_input) > mx
      \<or> user_input = [] \<or> (\<forall>c\<in>set user_input. isspace c)
      \<or> (\<exists>p\<in>set dangerous_patterns. \<exists>a b. py_lower user_input = a @ p @ b))"
proof -
  have "(\<forall>p\<in>set dangerous_patterns. \<not> str_in p (py_lower user_input)) \<longleftrightarrow>
        \<not> (\<exists>p\<in>set dangerous_patterns. \<exists>a b. py_lower user_input = a @ p @ b)"
    by (simp add: str_in_iff)
  moreover have "user_input = [] \<Longrightarrow> \<forall>c\<in>set user_input. isspace c" by simp
  ultimately show ?thesis
    unfolding validate_input_unfold py_strip_empty_iff
    by (metis not_le)
qed

text \<open>
  C3. \<open>validate_input\<close> is a function of the configured maximum and the input alone
  (it takes and returns no state), and it answers false exactly when the input is longer
  than the maximum, or is empty or consists of whitespace only, or its lowercased form
  contains one of the eight fixed substrings. The default maximum is 1000.
\<close>

theorem validate_input_false_iff:
  "(validate_input mx user_input = False \<longleftrightarrow>
     (int (length user_input) > mx
      \<or> user_input = [] \<or> (\<forall>c\<in>set user_input. isspace c)
      \<or> (\<exists>p\<in>set [''script'', ''javascript:'', ''data:'', ''vbscript:'',
                    ''<script'', ''</script>'', ''onload='', ''onerror=''].
            \<exists>a b. py_lower user_input = a @ p @ b)))
   \<and> default_MAX_INPUT_LENGTH = 1000"
  using validate_input_false_gen [of mx user_input]
  unfolding dangerous_patterns_def default_MAX_INPUT_LENGTH_def by simp

theorem validate_input_false_iff_witness:
  "validate_input default_MAX_INPUT_LENGTH ''Hi <SCRIPT>'' = False
   \<and> validate_input default_MAX_INPUT_LENGTH '' '' = False"
proof -
  have low: "py_lower ''Hi <SCRIPT>'' = ''hi <'' @ ''script'' @ ''>''" by code_simp
  have sp: "\<forall>c\<in>set '' ''. isspace c" by (simp add: isspace_def)
  have "''script'' \<in> set [''script'', ''javascript:'', ''data:'', ''vbscript:'',
                    ''<script'', ''</script>'', ''onload='', ''onerror='']" by simp
  then have 1: "validate_input default_MAX_INPUT_LENGTH ''Hi <SCRIPT>'' = False"
    using low validate_input_false_iff [of default_MAX_INPUT_LENGTH "''Hi <SCRIPT>''"]
    by blast
  have 2: "validate_input default_MAX_INPUT_LENGTH '' '' = False"
    using sp validate_input_false_iff [of default_MAX_INPUT_LENGTH "'' ''"] by blast
  show ?thesis using 1 2 by simp
qed

section \<open>Facts about the memory manager and the chat step\<close>

lemma split_from_words:
  "\<forall>c\<in>set cur. \<not> isspace c \<Longrightarrow>
   \<forall>w\<in>set (split_from cur s). w \<noteq> [] \<and> (\<forall>c\<in>set w. \<not> isspace c)"
proof (induction s arbitrary: cur)
  case Nil
  then show ?case by simp
next
  case (Cons c cs)
  show ?case
  proof (cases "isspace c")
    case True
    have "\<forall>w\<in>set (split_from [] cs). w \<noteq> [] \<and> (\<forall>c\<in>set w. \<not> isspace c)"
      by (rule Cons.IH) simp
    then show ?thesis using True Cons.prems by simp
  next
    case False
    have "\<forall>w\<in>set (split_from (c # cur) cs). w \<noteq> [] \<and> (\<forall>c\<in>set w. \<not> isspace c)"
      by (rule Cons.IH) (use False Cons.prems in simp)
    then show ?thesis using False by simp
  qed
qed

lemma split_from_concat:
  "concat (split_from cur s) = rev cur @ filter (\<lambda>c. \<not> isspace c) s"
proof (induction s arbitrary: cur)
  case Nil
  then show ?case by simp
next
  case (Cons c cs)
  show ?case
  proof (cases "isspace c")
    case True
    then show ?thesis using Cons.IH [of "[]"] by simp
  next
    case False
    then show ?thesis using Cons.IH [of "c # cur"] by simp
  qed
qed

lemma py_split_words: "\<forall>w\<in>set (py_split s). w \<noteq> [] \<and> (\<forall>c\<in>set w. \<not> isspace c)"
  unfolding py_split_def by (rule split_from_words) simp

lemma py_split_concat: "concat (py_split s) = filter (\<lambda>c. \<not> isspace c) s"
  unfolding py_split_def by (simp add: split_from_concat)

lemma sanitize_message_short:
  "validate_input_length mx message \<Longrightarrow> sanitize_message mx message = py_strip message"
proof -
  assume "validate_input_length mx message"
  then have "int (length message) \<le> mx" by (simp add: validate_input_length_def)
  moreover have "int (length (py_strip message)) \<le> int (length message)"
    using length_py_strip [of message] by simp
  ultimately have "\<not> int (length (py_strip message)) > mx" by linarith
  then show ?thesis by (simp add: sanitize_message_def Let_def)
qed

lemma add_message_rejected:
  "\<not> validate_input_length mx message \<Longrightarrow> add_message mx message is_human s = (False, s)"
  by (simp add: add_message_def)

lemma add_message_stored:
  "validate_input_length mx message \<Longrightarrow>
   add_message mx message is_human s =
     (True,
      s\<lparr>chat_memory := chat_memory s @
           [if is_human then HumanMessage (py_strip message) else AIMessage (py_strip message)],
        conversation_metadata :=
          (conversation_metadata s)
            \<lparr>message_count := message_count (conversation_metadata s) + 1,
             total_tokens := total_tokens (conversation_metadata s)
                             + int (length (py_split (py_strip message)))\<rparr>\<rparr>)"
  by (simp add: add_message_def Let_def sanitize_message_short)

lemma validate_input_length_of_validate_input:
  "validate_input mx user_input \<Longrightarrow> validate_input_length mx user_input"
  by (simp add: validate_input_def split: if_splits)

lemma summary_keeps_chat_memory:
  "chat_memory (snd (get_conversation_summary summ s)) = chat_memory s"
  by (simp add: get_conversation_summary_def split: prod.splits option.splits)

lemma summary_keeps_metadata:
  "conversation_metadata (snd (get_conversation_summary summ s)) = conversation_metadata s"
  by (simp add: get_conversation_summary_def split: prod.splits option.splits)

lemma chat_invalid:
  "\<not> validate_input mx user_input \<Longrightarrow> chat mx summ llm user_input s = (invalid_input_result, s)"
  by (simp add: chat_def)

lemma chat_raises:
  "validate_input mx user_input \<Longrightarrow>
   chat mx summ (Raises e) user_input s =
     (exception_result e, snd (add_message mx user_input True s))"
  by (simp add: chat_def predict_def add_message_stored validate_input_length_of_validate_input)

lemma chat_returns:
  "validate_input mx user_input \<Longrightarrow>
   chat mx summ (Returns reply) user_input s =
     (let s1 = snd (add_message mx user_input True s);
          s1' = s1\<lparr>chat_memory := chat_memory s1 @ [HumanMessage user_input, AIMessage reply]\<rparr>;
          s2 = snd (add_message mx reply False s1')
      in (\<lparr>response = reply, success = True, error = None,
           result_stats = Some (get_memory_stats s2),
           conversation_summary = Some (fst (get_conversation_summary summ s2))\<rparr>,
          snd (get_conversation_summary summ s2)))"
  by (simp add: chat_def predict_def add_message_stored validate_input_length_of_validate_input
      Let_def split: prod.splits)

lemma validate_input_too_long:
  "int (length user_input) > mx \<Longrightarrow> \<not> validate_input mx user_input"
  by (simp add: validate_input_unfold)

lemma validate_input_denylisted:
  "p \<in> set dangerous_patterns \<Longrightarrow> py_lower user_input = a @ p @ b
   \<Longrightarrow> \<not> validate_input mx user_input"
  unfolding validate_input_unfold str_in_iff by blast

lemma get_conversation_summary_fst:
  "fst (get_conversation_summary summ s) =
     (if chat_memory s = [] then ''No conversation history available.''
      else case fst (summary_loop summ (chat_memory s) (summary_mem s)) of
             Some e \<Rightarrow> ''Error generating conversation summary.''
           | None \<Rightarrow> buffer (snd (summary_loop summ (chat_memory s) (summary_mem s))))"
  by (simp add: get_conversation_summary_def split: prod.splits option.splits)

lemma get_conversation_summary_snd:
  "snd (get_conversation_summary summ s) =
     (if chat_memory s = [] then s
      else s\<lparr>summary_mem := snd (summary_loop summ (chat_memory s) (summary_mem s))\<rparr>)"
  by (simp add: get_conversation_summary_def split: prod.splits option.splits)

lemma summary_loop_raising:
  "\<exists>m\<in>set ms. is_human_message m \<Longrightarrow> fst (summary_loop (failing_summarizer e) ms sm) = Some e"
proof (induction ms arbitrary: sm)
  case Nil
  then show ?case by simp
next
  case (Cons m ms)
  show ?case
  proof (cases m)
    case (HumanMessage c)
    then show ?thesis by (simp add: summary_save_context_def failing_summarizer_def)
  next
    case (AIMessage c)
    with Cons.prems have "\<exists>m\<in>set ms. is_human_message m" by simp
    then show ?thesis using AIMessage Cons.IH by simp
  qed
qed

section \<open>Rejected input\<close>

text \<open>
  C2. When the input is longer than the configured maximum, or its lowercased form
  contains one of the denylisted substrings, \<open>chat\<close> answers with \<open>success = False\<close>
  and the error \<open>Input validation failed\<close>, and the manager is returned as it was: no
  message is appended and \<open>total_messages\<close> is unchanged.
\<close>

theorem chat_rejects_invalid_input:
  assumes "int (length user_input) > mx
           \<or> (\<exists>p\<in>set dangerous_patterns. \<exists>a b. py_lower user_input = a @ p @ b)"
  shows "success (fst (chat mx summ llm user_input s)) = False
         \<and> error (fst (chat mx summ llm user_input s)) = Some ''Input validation failed''
         \<and> snd (chat mx summ llm user_input s) = s
         \<and> chat_memory (snd (chat mx summ llm user_input s)) = chat_memory s
         \<and> total_messages (get_memory_stats (snd (chat mx summ llm user_input s)))
             = total_messages (get_memory_stats s)"
proof -
  from assms have "\<not> validate_input mx user_input"
    using validate_input_too_long validate_input_denylisted by blast
  then have "chat mx summ llm user_input s = (invalid_input_result, s)"
    by (rule chat_invalid)
  then show ?thesis by (simp add: invalid_input_result_def)
qed

theorem chat_rejects_invalid_input_witness:
  "success (fst (chat 1000 appending_summarizer (Returns ''ok'') ''Hello <SCRIPT>'' (init 0))) = False
   \<and> snd (chat 1000 appending_summarizer (Returns ''ok'') ''Hello <SCRIPT>'' (init 0)) = init 0
   \<and> success (fst (chat 1000 appending_summarizer (Returns ''ok'') (replicate 1200 CHR ''A'') (init 0))) = False
   \<and> snd (chat 1000 appending_summarizer (Returns ''ok'') (replicate 1200 CHR ''A'') (init 0)) = init 0"
proof -
  have low: "py_lower ''Hello <SCRIPT>'' = ''hello <'' @ ''script'' @ ''>''" by code_simp
  have mem: "''script'' \<in> set dangerous_patterns" by (simp add: dangerous_patterns_def)
  have 1: "int (length ''Hello <SCRIPT>'') > 1000
           \<or> (\<exists>p\<in>set dangerous_patterns. \<exists>a b. py_lower ''Hello <SCRIPT>'' = a @ p @ b)"
    using low mem by blast
  have 2: "int (length (replicate 1200 CHR ''A'')) > 1000
           \<or> (\<exists>p\<in>set dangerous_patterns. \<exists>a b. py_lower (replicate 1200 CHR ''A'') = a @ p @ b)"
    by simp
  show ?thesis
    using chat_rejects_invalid_input [OF 1, of appending_summarizer "Returns ''ok''" "init 0"]
          chat_rejects_invalid_input [OF 2, of appending_summarizer "Returns ''ok''" "init 0"]
    by simp
qed

section \<open>Appending a message\<close>

text \<open>
  C10. When \<open>add_message\<close> accepts a message, the stored message carries the sanitized
  content, which is the input without its leading and trailing whitespace (the cut to the
  maximum length in \<open>sanitize_message\<close> never applies to an accepted message),
  \<open>message_count\<close> grows by exactly one, and \<open>total_tokens\<close> grows by the number of
  whitespace-separated words of the sanitized content.
\<close>

theorem add_message_accepted:
  assumes "add_message mx message is_human s = (True, s')"
  shows "chat_memory s' = chat_memory s @
           [if is_human then HumanMessage (sanitize_message mx message)
            else AIMessage (sanitize_message mx message)]
         \<and> sanitize_message mx message = py_strip message
         \<and> (\<exists>l r. message = l @ py_strip message @ r
                \<and> (\<forall>c\<in>set l. isspace c) \<and> (\<forall>c\<in>set r. isspace c))
         \<and> (py_strip message \<noteq> [] \<longrightarrow>
               \<not> isspace (hd (py_strip message)) \<and> \<not> isspace (last (py_strip message)))
         \<and> message_count (conversation_metadata s')
             = message_count (conversation_metadata s) + 1
         \<and> total_tokens (conversation_metadata s')
             = total_tokens (conversation_metadata s)
               + int (length (py_split (sanitize_message mx message)))"
proof -
  have ok: "validate_input_length mx message"
    using assms by (cases "validate_input_length mx message") (simp_all add: add_message_rejected)
  have san: "sanitize_message mx message = py_strip message"
    using ok by (rule sanitize_message_short)
  have s': "s' = snd (add_message mx message is_human s)" using assms by simp
  have "chat_memory s' = chat_memory s @
           [if is_human then HumanMessage (py_strip message) else AIMessage (py_strip message)]"
    unfolding s' by (simp add: add_message_stored [OF ok])
  moreover have "message_count (conversation_metadata s')
             = message_count (conversation_metadata s) + 1"
    unfolding s' by (simp add: add_message_stored [OF ok])
  moreover have "total_tokens (conversation_metadata s')
             = total_tokens (conversation_metadata s) + int (length (py_split (py_strip message)))"
    unfolding s' by (simp add: add_message_stored [OF ok])
  ultimately show ?thesis
    using san py_strip_decomp [of message] py_strip_hd [of message] py_strip_last [of message]
    by simp
qed

theorem add_message_accepted_witness:
  "add_message 1000 ''  hello world  '' True (init 0)
     = (True, snd (add_message 1000 ''  hello world  '' True (init 0)))
   \<and> chat_memory (snd (add_message 1000 ''  hello world  '' True (init 0)))
       = [HumanMessage ''hello world'']
   \<and> message_count (conversation_metadata (snd (add_message 1000 ''  hello world  '' True (init 0)))) = 1
   \<and> total_tokens (conversation_metadata (snd (add_message 1000 ''  hello world  '' True (init 0)))) = 2"
proof -
  have ok: "validate_input_length 1000 ''  hello world  ''"
    by (simp add: validate_input_length_def)
  have a: "add_message 1000 ''  hello world  '' True (init 0)
     = (True, snd (add_message 1000 ''  hello world  '' True (init 0)))"
    by (simp add: add_message_stored [OF ok])
  have st: "py_strip ''  hello world  '' = ''hello world''" by code_simp
  have sp: "length (py_split ''hello world'') = 2" by code_simp
  show ?thesis
    using add_message_accepted [OF a] a st sp by (simp add: init_def)
qed

section \<open>A reply that is too long\<close>

text \<open>
  C9. The claim is that a reply longer than the configured maximum is kept out of the
  memory: \<open>add_message\<close> refuses it, \<open>chat\<close> does not look at that and still answers
  with \<open>success = True\<close>, and the stored sequence grows by the human message alone. The
  code does refuse and does report success, and \<open>message_count\<close> grows by one only; but
  the chain, which shares the memory, has already saved the input and the reply
  unchecked, so the stored sequence grows by three messages, the over-long reply among
  them.
\<close>

theorem chat_long_reply_stored_by_chain:
  assumes "validate_input mx user_input" and "int (length reply) > mx"
  shows "fst (add_message mx reply False s') = False
         \<and> success (fst (chat mx summ (Returns reply) user_input s)) = True
         \<and> response (fst (chat mx summ (Returns reply) user_input s)) = reply
         \<and> chat_memory (snd (chat mx summ (Returns reply) user_input s))
             = chat_memory s
               @ [HumanMessage (py_strip user_input), HumanMessage user_input, AIMessage reply]
         \<and> message_count (conversation_metadata (snd (chat mx summ (Returns reply) user_input s)))
             = message_count (conversation_metadata s) + 1"
proof -
  have len: "validate_input_length mx user_input"
    using assms(1) by (rule validate_input_length_of_validate_input)
  have rej: "\<not> validate_input_length mx reply"
    using assms(2) by (simp add: validate_input_length_def)
  have 1: "fst (add_message mx reply False s') = False"
    by (simp add: add_message_rejected [OF rej])
  let ?s1 = "snd (add_message mx user_input True s)"
  let ?s1' = "?s1\<lparr>chat_memory := chat_memory ?s1 @ [HumanMessage user_input, AIMessage reply]\<rparr>"
  have c: "chat mx summ (Returns reply) user_input s =
      (\<lparr>response = reply, success = True, error = None,
        result_stats = Some (get_memory_stats ?s1'),
        conversation_summary = Some (fst (get_conversation_summary summ ?s1'))\<rparr>,
       snd (get_conversation_summary summ ?s1'))"
    unfolding chat_returns [OF assms(1)] by (simp add: add_message_rejected [OF rej] Let_def)
  have 2: "chat_memory (snd (chat mx summ (Returns reply) user_input s))
           = chat_memory s
             @ [HumanMessage (py_strip user_input), HumanMessage user_input, AIMessage reply]"
    unfolding c by (simp add: summary_keeps_chat_memory add_message_stored [OF len])
  have 3: "message_count (conversation_metadata (snd (chat mx summ (Returns reply) user_input s)))
           = message_count (conversation_metadata s) + 1"
    unfolding c by (simp add: summary_keeps_metadata add_message_stored [OF len])
  show ?thesis
    using 1 2 3 unfolding c by simp
qed

text \<open>
  With the maximum at 1000, the input \<open>Hello\<close> and a reply of 1001 characters on a fresh
  session: three messages are stored and \<open>message_count\<close> is one.
\<close>

theorem chat_long_reply_stored_by_chain_witness:
  "fst (add_message 1000 (replicate 1001 CHR ''x'') False (init 0)) = False
   \<and> success (fst (chat 1000 appending_summarizer
                   (Returns (replicate 1001 CHR ''x'')) ''Hello'' (init 0))) = True
   \<and> chat_memory (snd (chat 1000 appending_summarizer
                   (Returns (replicate 1001 CHR ''x'')) ''Hello'' (init 0)))
       = [HumanMessage ''Hello'', HumanMessage ''Hello'', AIMessage (replicate 1001 CHR ''x'')]
   \<and> message_count (conversation_metadata (snd (chat 1000 appending_summarizer
                   (Returns (replicate 1001 CHR ''x'')) ''Hello'' (init 0)))) = 1"
proof -
  have v: "validate_input 1000 ''Hello''" by code_simp
  have l: "int (length (replicate 1001 CHR ''x'')) > 1000" by simp
  have st: "py_strip ''Hello'' = ''Hello''" by code_simp
  show ?thesis
    using chat_long_reply_stored_by_chain [OF v l, of "init 0" appending_summarizer "init 0"] st
    by (simp add: init_def)
qed

section \<open>Failures inside chat\<close>

text \<open>
  C6, as the code has it. \<open>chat\<close> always returns a structured result. When the chain's
  \<open>predict\<close> raises, the result has \<open>success = False\<close> and the fixed apology as its
  response, and its \<open>error\<close> field carries the exception's own text. When the
  summarizer raises, \<open>get_conversation_summary\<close> absorbs it: the result keeps
  \<open>success = True\<close> and the summary is the fixed error text.
\<close>

theorem chat_failure_result:
  "fst (chat mx summ (Raises e) user_input s)
     = (if validate_input mx user_input then exception_result e else invalid_input_result)
   \<and> success (exception_result e) = False
   \<and> response (exception_result e) = ''I'm sorry, but I encountered an error. Please try again.''
   \<and> error (exception_result e) = Some e
   \<and> (validate_input mx user_input \<longrightarrow>
        success (fst (chat mx (failing_summarizer e) (Returns reply) user_input s)) = True
        \<and> conversation_summary (fst (chat mx (failing_summarizer e) (Returns reply) user_input s))
            = Some ''Error generating conversation summary.'')"
proof -
  have 1: "fst (chat mx summ (Raises e) user_input s)
     = (if validate_input mx user_input then exception_result e else invalid_input_result)"
    by (simp add: chat_raises chat_invalid)
  have 2: "success (fst (chat mx (failing_summarizer e) (Returns reply) user_input s)) = True
        \<and> conversation_summary (fst (chat mx (failing_summarizer e) (Returns reply) user_input s))
            = Some ''Error generating conversation summary.''"
    if v: "validate_input mx user_input"
  proof -
    have len: "validate_input_length mx user_input"
      using v by (rule validate_input_length_of_validate_input)
    let ?s1 = "snd (add_message mx user_input True s)"
    let ?s1' = "?s1\<lparr>chat_memory := chat_memory ?s1 @ [HumanMessage user_input, AIMessage reply]\<rparr>"
    let ?s2 = "snd (add_message mx reply False ?s1')"
    have mem1: "chat_memory ?s1 = chat_memory s @ [HumanMessage (py_strip user_input)]"
      by (simp add: add_message_stored [OF len])
    have "HumanMessage (py_strip user_input) \<in> set (chat_memory ?s2)"
      by (cases "validate_input_length mx reply")
         (simp_all add: add_message_stored add_message_rejected mem1)
    then have h: "\<exists>m\<in>set (chat_memory ?s2). is_human_message m"
      by (rule bexI [rotated]) simp
    then have ne: "chat_memory ?s2 \<noteq> []" by auto
    have "fst (summary_loop (failing_summarizer e) (chat_memory ?s2) (summary_mem ?s2)) = Some e"
      using h by (rule summary_loop_raising)
    then have "fst (get_conversation_summary (failing_summarizer e) ?s2)
                 = ''Error generating conversation summary.''"
      using ne by (simp add: get_conversation_summary_fst)
    then show ?thesis
      unfolding chat_returns [OF v] by (simp add: Let_def)
  qed
  show ?thesis using 1 2 by (simp add: exception_result_def)
qed

theorem chat_failure_result_witness:
  "fst (chat 1000 appending_summarizer (Raises ''timeout'') ''Hello'' (init 0)) = exception_result ''timeout''
   \<and> success (fst (chat 1000 (failing_summarizer ''timeout'') (Returns ''Hi'') ''Hello'' (init 0))) = True"
proof -
  have v: "validate_input 1000 ''Hello''" by code_simp
  show ?thesis
    using chat_failure_result [of 1000 appending_summarizer "''timeout''" "''Hello''" "init 0" "''Hi''"]
          chat_failure_result [of 1000 "failing_summarizer ''timeout''" "''timeout''" "''Hello''" "init 0" "''Hi''"] v
    by simp
qed

text \<open>
  The claim as stated fails: the text of the exception is part of the result, and a
  failing summarizer does not turn the result into a failure.
\<close>

theorem chat_error_text_counterexample:
  "error (fst (chat 1000 appending_summarizer
                 (Raises ''Incorrect API key provided: sk-test'') ''Hello'' (init 0)))
     = Some ''Incorrect API key provided: sk-test''
   \<and> success (fst (chat 1000 (failing_summarizer ''Rate limit reached'') (Returns ''Hi'') ''Hello'' (init 0)))
     = True"
proof -
  have v: "validate_input 1000 ''Hello''" by code_simp
  have 1: "error (fst (chat 1000 appending_summarizer
                 (Raises ''Incorrect API key provided: sk-test'') ''Hello'' (init 0)))
     = Some ''Incorrect API key provided: sk-test''"
    by (simp add: chat_raises [OF v] exception_result_def)
  have 2: "success (fst (chat 1000 (failing_summarizer ''Rate limit reached'') (Returns ''Hi'') ''Hello'' (init 0)))
     = True"
    by (simp add: chat_returns [OF v] Let_def)
  show ?thesis using 1 2 by simp
qed

section \<open>Clearing the memory\<close>

text \<open>
  C4, as the code has it. \<open>clear_memory\<close> returns true in every state, empties the stored
  messages and the summary memory, and resets the metadata: both counters are zero and
  \<open>start_time\<close> is the clock reading taken by the call, so the statistics that follow
  report no messages. The new \<open>start_time\<close> is later than the previous one exactly when
  that reading is. Clearing again at the same reading changes nothing, and clearing again
  at another reading gives what a single clear at that reading gives.
\<close>

theorem clear_memory_resets:
  "fst (clear_memory now s) = True
   \<and> chat_memory (snd (clear_memory now s)) = []
   \<and> summary_mem (snd (clear_memory now s)) = \<lparr>summary_messages = [], buffer = []\<rparr>
   \<and> total_messages (get_memory_stats (snd (clear_memory now s))) = 0
   \<and> has_summary (get_memory_stats (snd (clear_memory now s))) = False
   \<and> stats_metadata (get_memory_stats (snd (clear_memory now s)))
       = \<lparr>start_time = now, message_count = 0, total_tokens = 0\<rparr>
   \<and> (start_time (conversation_metadata s)
         < start_time (conversation_metadata (snd (clear_memory now s))))
       = (start_time (conversation_metadata s) < now)
   \<and> clear_memory now (snd (clear_memory now s)) = clear_memory now s
   \<and> clear_memory later (snd (clear_memory now s)) = clear_memory later s"
  by (simp add: clear_memory_def get_memory_stats_def summary_clear_def)

theorem clear_memory_resets_witness:
  "total_messages (get_memory_stats (snd (clear_memory 7 (snd (add_message 1000 ''Hello'' True (init 3)))))) = 0
   \<and> (start_time (conversation_metadata (snd (add_message 1000 ''Hello'' True (init 3))))
         < start_time (conversation_metadata
             (snd (clear_memory 7 (snd (add_message 1000 ''Hello'' True (init 3)))))))"
proof -
  have "start_time (conversation_metadata (snd (add_message 1000 ''Hello'' True (init 3)))) = 3"
    by (simp add: add_message_def validate_input_length_def init_def Let_def)
  then show ?thesis
    using clear_memory_resets [of 7 "snd (add_message 1000 ''Hello'' True (init 3))"]
    by simp
qed

text \<open>
  The claim as stated fails where the wall clock has not advanced: with the same reading,
  or an earlier one, the new \<open>start_time\<close> is not later than the previous one.
\<close>

theorem clear_memory_start_time_counterexample:
  "\<not> start_time (conversation_metadata (init 1000))
       < start_time (conversation_metadata (snd (clear_memory 1000 (init 1000))))
   \<and> \<not> start_time (conversation_metadata (init 1000))
       < start_time (conversation_metadata (snd (clear_memory 900 (init 1000))))"
  by (simp add: clear_memory_def init_def)

section \<open>The conversation summary\<close>

lemma summary_loop_filter:
  "summary_loop summ ms sm = summary_loop summ (filter is_human_message ms) sm"
proof (induction ms arbitrary: sm)
  case Nil
  then show ?case by simp
next
  case (Cons m ms)
  show ?case
  proof (cases m)
    case (HumanMessage c)
    then show ?thesis
      using Cons.IH by (simp split: prod.splits option.splits)
  next
    case (AIMessage c)
    then show ?thesis using Cons.IH by simp
  qed
qed

lemma summary_loop_refold:
  "fst (summary_loop summ ms sm) =
     (case refold summ (buffer sm) (human_texts ms) of Inl e \<Rightarrow> Some e | Inr d \<Rightarrow> None)
   \<and> (\<forall>d. refold summ (buffer sm) (human_texts ms) = Inr d
          \<longrightarrow> buffer (snd (summary_loop summ ms sm)) = d)"
proof (induction ms arbitrary: sm)
  case Nil
  then show ?case by (simp add: human_texts_def)
next
  case (Cons m ms)
  show ?case
  proof (cases m)
    case (AIMessage c)
    then show ?thesis using Cons.IH [of sm] by (simp add: human_texts_def)
  next
    case (HumanMessage c)
    show ?thesis
    proof (cases "summ (buffer sm) c")
      case (Inl e)
      then show ?thesis
        using HumanMessage by (simp add: human_texts_def summary_save_context_def)
    next
      case (Inr d)
      let ?sm' = "sm\<lparr>summary_messages := summary_messages sm @ [HumanMessage c, AIMessage []],
                      buffer := d\<rparr>"
      have step: "summary_loop summ (m # ms) sm = summary_loop summ ms ?sm'"
        using HumanMessage Inr by (simp add: summary_save_context_def)
      have texts: "refold summ (buffer sm) (human_texts (m # ms)) = refold summ d (human_texts ms)"
        using HumanMessage Inr by (simp add: human_texts_def)
      show ?thesis
        unfolding step texts using Cons.IH [of ?sm'] by simp
    qed
  qed
qed

lemma get_conversation_summary_refold:
  "chat_memory s \<noteq> [] \<Longrightarrow>
   fst (get_conversation_summary summ s) =
     (case refold summ (buffer (summary_mem s)) (human_texts (chat_memory s)) of
        Inl e \<Rightarrow> ''Error generating conversation summary.''
      | Inr d \<Rightarrow> d)"
  using summary_loop_refold [of summ "chat_memory s" "summary_mem s"]
  by (simp add: get_conversation_summary_fst split: sum.splits)

lemma get_conversation_summary_buffer:
  "chat_memory s \<noteq> [] \<Longrightarrow>
   refold summ (buffer (summary_mem s)) (human_texts (chat_memory s)) = Inr d \<Longrightarrow>
   buffer (summary_mem (snd (get_conversation_summary summ s))) = d"
  using summary_loop_refold [of summ "chat_memory s" "summary_mem s"]
  by (simp add: get_conversation_summary_snd)

text \<open>
  C7. With no stored message the summary is the fixed placeholder and nothing changes.
  Otherwise the loop hands the summarizer the human messages only: it runs as it would on
  the list with every reply removed, so two states with the same human messages and the
  same summary memory get the same summary, whatever the replies are.
\<close>

theorem summary_uses_human_turns_only:
  "(chat_memory s = [] \<longrightarrow>
      get_conversation_summary summ s = (''No conversation history available.'', s))
   \<and> (chat_memory s \<noteq> [] \<longrightarrow> chat_memory s' \<noteq> [] \<longrightarrow>
       filter is_human_message (chat_memory s) = filter is_human_message (chat_memory s') \<longrightarrow>
       summary_mem s = summary_mem s' \<longrightarrow>
         fst (get_conversation_summary summ s) = fst (get_conversation_summary summ s')
         \<and> summary_mem (snd (get_conversation_summary summ s))
             = summary_mem (snd (get_conversation_summary summ s')))
   \<and> summary_loop summ (chat_memory s) (summary_mem s)
       = summary_loop summ (filter is_human_message (chat_memory s)) (summary_mem s)"
proof -
  have 1: "chat_memory s = [] \<longrightarrow>
      get_conversation_summary summ s = (''No conversation history available.'', s)"
    by (simp add: get_conversation_summary_def)
  have 2: "fst (get_conversation_summary summ s) = fst (get_conversation_summary summ s')
         \<and> summary_mem (snd (get_conversation_summary summ s))
             = summary_mem (snd (get_conversation_summary summ s'))"
    if "chat_memory s \<noteq> []" "chat_memory s' \<noteq> []"
       "filter is_human_message (chat_memory s) = filter is_human_message (chat_memory s')"
       "summary_mem s = summary_mem s'"
  proof -
    have "summary_loop summ (chat_memory s) (summary_mem s)
            = summary_loop summ (chat_memory s') (summary_mem s')"
      using that(3,4) summary_loop_filter [of summ "chat_memory s" "summary_mem s"]
        summary_loop_filter [of summ "chat_memory s'" "summary_mem s'"] by simp
    then show ?thesis
      unfolding get_conversation_summary_fst get_conversation_summary_snd
      using that(1,2) by (simp split: option.splits)
  qed
  have 3: "summary_loop summ (chat_memory s) (summary_mem s)
       = summary_loop summ (filter is_human_message (chat_memory s)) (summary_mem s)"
    by (rule summary_loop_filter)
  show ?thesis using 1 2 3 by blast
qed

theorem summary_uses_human_turns_only_witness:
  "get_conversation_summary appending_summarizer (init 0)
     = (''No conversation history available.'', init 0)
   \<and> fst (get_conversation_summary appending_summarizer
            ((init 0)\<lparr>chat_memory := [HumanMessage ''a'', AIMessage ''b'']\<rparr>))
     = fst (get_conversation_summary appending_summarizer
            ((init 0)\<lparr>chat_memory := [HumanMessage ''a'', AIMessage ''zzz'', AIMessage ''y'']\<rparr>))"
  using summary_uses_human_turns_only
          [of "init 0" appending_summarizer "init 0"]
        summary_uses_human_turns_only
          [of "(init 0)\<lparr>chat_memory := [HumanMessage ''a'', AIMessage ''b'']\<rparr>"
              appending_summarizer
              "(init 0)\<lparr>chat_memory := [HumanMessage ''a'', AIMessage ''zzz'', AIMessage ''y'']\<rparr>"]
  by (simp add: init_def)

text \<open>
  C8, as the code has it. A summary request folds the summarizer over the human messages
  now stored, in order, starting from the digest that the previous request left in the
  summary memory; that digest is empty after construction and after a clear. A second
  request with nothing in between therefore folds the same texts again onto the result of
  the first.
\<close>

theorem summary_folds_onto_previous_digest:
  assumes "chat_memory s \<noteq> []"
  shows "fst (get_conversation_summary summ s) =
           (case refold summ (buffer (summary_mem s)) (human_texts (chat_memory s)) of
              Inl e \<Rightarrow> ''Error generating conversation summary.''
            | Inr d \<Rightarrow> d)
         \<and> (\<forall>d. refold summ (buffer (summary_mem s)) (human_texts (chat_memory s)) = Inr d \<longrightarrow>
               buffer (summary_mem (snd (get_conversation_summary summ s))) = d
               \<and> fst (get_conversation_summary summ (snd (get_conversation_summary summ s))) =
                   (case refold summ d (human_texts (chat_memory s)) of
                      Inl e \<Rightarrow> ''Error generating conversation summary.''
                    | Inr d' \<Rightarrow> d'))
         \<and> buffer (summary_mem (init t)) = []
         \<and> buffer (summary_mem (snd (clear_memory t s))) = []"
proof -
  let ?s1 = "snd (get_conversation_summary summ s)"
  have mem: "chat_memory ?s1 = chat_memory s" by (rule summary_keeps_chat_memory)
  have 1: "fst (get_conversation_summary summ s) =
           (case refold summ (buffer (summary_mem s)) (human_texts (chat_memory s)) of
              Inl e \<Rightarrow> ''Error generating conversation summary.''
            | Inr d \<Rightarrow> d)"
    using assms by (rule get_conversation_summary_refold)
  have 2: "buffer (summary_mem ?s1) = d
           \<and> fst (get_conversation_summary summ ?s1) =
                   (case refold summ d (human_texts (chat_memory s)) of
                      Inl e \<Rightarrow> ''Error generating conversation summary.''
                    | Inr d' \<Rightarrow> d')"
    if r: "refold summ (buffer (summary_mem s)) (human_texts (chat_memory s)) = Inr d" for d
  proof -
    have b: "buffer (summary_mem ?s1) = d"
      using assms r by (rule get_conversation_summary_buffer)
    have "chat_memory ?s1 \<noteq> []" using assms mem by simp
    then have "fst (get_conversation_summary summ ?s1) =
           (case refold summ (buffer (summary_mem ?s1)) (human_texts (chat_memory ?s1)) of
              Inl e \<Rightarrow> ''Error generating conversation summary.''
            | Inr d \<Rightarrow> d)"
      by (rule get_conversation_summary_refold)
    then show ?thesis using b mem by simp
  qed
  have 3: "buffer (summary_mem (init t)) = []" by (simp add: init_def)
  have 4: "buffer (summary_mem (snd (clear_memory t s))) = []"
    by (simp add: clear_memory_def summary_clear_def)
  show ?thesis using 1 2 3 4 by blast
qed

theorem summary_folds_onto_previous_digest_witness:
  "fst (get_conversation_summary appending_summarizer
          ((init 0)\<lparr>chat_memory := [HumanMessage ''a'', AIMessage ''b'', HumanMessage ''c'']\<rparr>)) = ''ac''"
proof -
  have ne: "chat_memory ((init 0)\<lparr>chat_memory := [HumanMessage ''a'', AIMessage ''b'', HumanMessage ''c'']\<rparr>) \<noteq> []"
    by simp
  show ?thesis
    using summary_folds_onto_previous_digest [OF ne, of appending_summarizer 0]
    by (simp add: init_def human_texts_def appending_summarizer_def)
qed

text \<open>
  The claim as stated fails: after a call of \<open>chat\<close> whose model call raised, the one
  human message \<open>hi\<close> is stored and no summary has been asked for yet. Two summary
  requests with nothing in between then give \<open>hi\<close> and \<open>hihi\<close> with a summarizer that
  appends; the stored human messages are still the one \<open>hi\<close>.
\<close>

theorem summary_not_from_scratch_counterexample:
  "human_texts (chat_memory (snd (chat 1000 appending_summarizer (Raises ''timeout'') ''hi'' (init 0))))
     = [''hi'']
   \<and> fst (get_conversation_summary appending_summarizer
           (snd (chat 1000 appending_summarizer (Raises ''timeout'') ''hi'' (init 0)))) = ''hi''
   \<and> fst (get_conversation_summary appending_summarizer
           (snd (get_conversation_summary appending_summarizer
             (snd (chat 1000 appending_summarizer (Raises ''timeout'') ''hi'' (init 0)))))) = ''hihi''
   \<and> human_texts (chat_memory
           (snd (get_conversation_summary appending_summarizer
             (snd (chat 1000 appending_summarizer (Raises ''timeout'') ''hi'' (init 0))))))
     = [''hi'']"
  by code_simp

section \<open>Sessions\<close>

lemma run_chats_Cons:
  "run_chats mx summ (call # calls) s =
     (fst (chat mx summ (snd call) (fst call) s)
        # fst (run_chats mx summ calls (snd (chat mx summ (snd call) (fst call) s))),
      snd (run_chats mx summ calls (snd (chat mx summ (snd call) (fst call) s))))"
  by (cases call) (simp add: Let_def split: prod.splits)

lemma chat_success_iff:
  "success (fst (chat mx summ llm user_input s))
     \<longleftrightarrow> validate_input mx user_input \<and> (\<exists>reply. llm = Returns reply)"
proof (cases "validate_input mx user_input")
  case False
  then show ?thesis by (simp add: chat_invalid invalid_input_result_def)
next
  case True
  then show ?thesis
    by (cases llm) (simp_all add: chat_raises chat_returns exception_result_def Let_def)
qed

lemma chat_stored_exchange:
  assumes "validate_input mx user_input" and "validate_input_length mx reply"
  shows "chat_memory (snd (chat mx summ (Returns reply) user_input s))
           = chat_memory s
             @ [HumanMessage (py_strip user_input), HumanMessage user_input,
                AIMessage reply, AIMessage (py_strip reply)]"
    and "message_count (conversation_metadata (snd (chat mx summ (Returns reply) user_input s)))
           = message_count (conversation_metadata s) + 2"
  using assms
  by (simp_all add: chat_returns Let_def summary_keeps_chat_memory summary_keeps_metadata
      add_message_stored validate_input_length_of_validate_input)

lemma run_exchanges:
  assumes "\<forall>c\<in>set exchanges. validate_input mx (fst c) \<and> validate_input_length mx (snd c)"
  shows "list_all success (fst (run_chats mx summ (map (\<lambda>c. (fst c, Returns (snd c))) exchanges) s))
         \<and> chat_memory (snd (run_chats mx summ (map (\<lambda>c. (fst c, Returns (snd c))) exchanges) s))
             = chat_memory s
               @ concat (map (\<lambda>c. [HumanMessage (py_strip (fst c)), HumanMessage (fst c),
                                    AIMessage (snd c), AIMessage (py_strip (snd c))])
                   exchanges)
         \<and> message_count (conversation_metadata
               (snd (run_chats mx summ (map (\<lambda>c. (fst c, Returns (snd c))) exchanges) s)))
             = message_count (conversation_metadata s) + 2 * int (length exchanges)"
  using assms
proof (induction exchanges arbitrary: s)
  case Nil
  then show ?case by simp
next
  case (Cons c cs)
  from Cons.prems have v: "validate_input mx (fst c)" and l: "validate_input_length mx (snd c)"
    and rest: "\<forall>c\<in>set cs. validate_input mx (fst c) \<and> validate_input_length mx (snd c)"
    by simp_all
  let ?s1 = "snd (chat mx summ (Returns (snd c)) (fst c) s)"
  have ok: "success (fst (chat mx summ (Returns (snd c)) (fst c) s))"
    using v by (simp add: chat_success_iff)
  show ?case
    using Cons.IH [OF rest, of ?s1] ok chat_stored_exchange [OF v l, of summ s]
    by (simp add: run_chats_Cons)
qed

lemma length_concat_pairs:
  "length (concat (map (\<lambda>c. [f c, g c]) xs)) = 2 * length xs"
  by (induction xs) simp_all

lemma subseq_exchanges:
  "subseq (concat (map (\<lambda>c. [f c, g c]) xs)) (concat (map (\<lambda>c. [f c, h c, k c, g c]) xs))"
proof (induction xs)
  case Nil
  then show ?case by simp
next
  case (Cons x xs)
  have "subseq [f x, g x] [f x, h x, k x, g x]" by simp
  then have "subseq ([f x, g x] @ concat (map (\<lambda>c. [f c, g c]) xs))
               ([f x, h x, k x, g x] @ concat (map (\<lambda>c. [f c, h c, k c, g c]) xs))"
    using Cons.IH by (rule list_emb_append_mono)
  then show ?case by simp
qed

lemma length_concat_quads:
  "length (concat (map (\<lambda>c. [f c, g c, h c, k c]) xs)) = 4 * length xs"
  by (induction xs) simp_all

text \<open>
  C1, as the code has it. After \<open>k\<close> successful calls of \<open>chat\<close> on a fresh session
  whose replies are within the maximum, no message has been evicted: the \<open>2 * k\<close> turns
  that \<open>add_message\<close> accepted are all in the stored sequence, in the order of insertion.
  \<open>total_messages\<close> is the length of the whole stored sequence and is never below the
  lifetime \<open>message_count\<close>, which is \<open>2 * k\<close>; \<open>window_size\<close> is reported as the
  constant 10. Only the view of \<open>get_memory_variables\<close> is windowed: it is the last 20
  stored messages.
\<close>

theorem session_keeps_every_message:
  assumes "\<forall>c\<in>set exchanges. validate_input mx (fst c) \<and> validate_input_length mx (snd c)"
  shows "let run = run_chats mx summ (map (\<lambda>c. (fst c, Returns (snd c))) exchanges) (init t);
             s = snd run;
             stats = get_memory_stats s
         in list_all success (fst run)
            \<and> subseq (concat (map (\<lambda>c. [HumanMessage (py_strip (fst c)),
                                          AIMessage (py_strip (snd c))]) exchanges))
                 (chat_memory s)
            \<and> total_messages stats = length (chat_memory s)
            \<and> message_count (stats_metadata stats) = 2 * int (length exchanges)
            \<and> message_count (stats_metadata stats) \<le> int (total_messages stats)
            \<and> window_size stats = 10
            \<and> get_memory_variables s = drop (total_messages stats - 20) (chat_memory s)
            \<and> length (get_memory_variables s) = min (total_messages stats) 20"
proof -
  let ?run = "run_chats mx summ (map (\<lambda>c. (fst c, Returns (snd c))) exchanges) (init t)"
  let ?s = "snd ?run"
  note r = run_exchanges [OF assms, of summ "init t"]
  have ok: "list_all success (fst ?run)" using r by simp
  have mem: "chat_memory ?s
      = concat (map (\<lambda>c. [HumanMessage (py_strip (fst c)), HumanMessage (fst c),
                           AIMessage (snd c), AIMessage (py_strip (snd c))]) exchanges)"
    using r by (simp add: init_def)
  have sub: "subseq (concat (map (\<lambda>c. [HumanMessage (py_strip (fst c)),
                                          AIMessage (py_strip (snd c))]) exchanges))
                 (chat_memory ?s)"
    unfolding mem by (rule subseq_exchanges)
  have tot: "total_messages (get_memory_stats ?s) = length (chat_memory ?s)"
    by (simp add: get_memory_stats_def)
  have cnt: "message_count (stats_metadata (get_memory_stats ?s)) = 2 * int (length exchanges)"
    using r by (simp add: get_memory_stats_def init_def)
  have "length (concat (map (\<lambda>c. [HumanMessage (py_strip (fst c)),
                                     AIMessage (py_strip (snd c))]) exchanges))
          \<le> length (chat_memory ?s)"
    using sub by (rule list_emb_length)
  then have le: "message_count (stats_metadata (get_memory_stats ?s))
                   \<le> int (total_messages (get_memory_stats ?s))"
    unfolding cnt tot by (simp add: length_concat_pairs)
  have win: "window_size (get_memory_stats ?s) = 10" by (simp add: get_memory_stats_def)
  have view: "get_memory_variables ?s
                = drop (total_messages (get_memory_stats ?s) - 20) (chat_memory ?s)"
    by (simp add: get_memory_variables_def get_memory_stats_def)
  have vlen: "length (get_memory_variables ?s) = min (total_messages (get_memory_stats ?s)) 20"
    unfolding view tot by simp
  show ?thesis
    unfolding Let_def using ok sub tot cnt le win view vlen by blast
qed

theorem session_keeps_every_message_witness:
  "message_count (conversation_metadata
     (snd (run_chats 1000 appending_summarizer
        (map (\<lambda>c. (fst c, Returns (snd c))) (replicate 11 (''hi'', ''ok''))) (init 0)))) = 22
   \<and> length (get_memory_variables
     (snd (run_chats 1000 appending_summarizer
        (map (\<lambda>c. (fst c, Returns (snd c))) (replicate 11 (''hi'', ''ok''))) (init 0)))) = 20"
proof -
  have v: "validate_input 1000 ''hi'' \<and> validate_input_length 1000 ''ok''" by code_simp
  then have h: "\<forall>c\<in>set (replicate 11 (''hi'', ''ok'')).
                  validate_input 1000 (fst c) \<and> validate_input_length 1000 (snd c)"
    by simp
  let ?s = "snd (run_chats 1000 appending_summarizer
        (map (\<lambda>c. (fst c, Returns (snd c))) (replicate 11 (''hi'', ''ok''))) (init 0))"
  note th = session_keeps_every_message [OF h, of appending_summarizer 0, unfolded Let_def]
  from th have c: "message_count (stats_metadata (get_memory_stats ?s))
                     = 2 * int (length (replicate 11 (''hi'', ''ok'')))"
    by blast
  from th have le: "message_count (stats_metadata (get_memory_stats ?s))
                     \<le> int (total_messages (get_memory_stats ?s))"
    by blast
  from th have v: "length (get_memory_variables ?s) = min (total_messages (get_memory_stats ?s)) 20"
    by blast
  have c': "message_count (conversation_metadata ?s) = 22"
    using c by (simp add: get_memory_stats_def)
  have "20 \<le> total_messages (get_memory_stats ?s)" using c le by simp
  then show ?thesis using c' v by simp
qed

text \<open>
  The claim as stated fails at six successful calls: \<open>total_messages\<close> is 24, above the
  reported window size of 10, while \<open>message_count\<close> is 12.
\<close>

theorem window_bound_counterexample:
  "list_all success (fst (run_chats 1000 appending_summarizer
       (replicate 6 (''hi'', Returns ''ok'')) (init 0)))
   \<and> total_messages (get_memory_stats (snd (run_chats 1000 appending_summarizer
       (replicate 6 (''hi'', Returns ''ok'')) (init 0)))) = 24
   \<and> window_size (get_memory_stats (snd (run_chats 1000 appending_summarizer
       (replicate 6 (''hi'', Returns ''ok'')) (init 0)))) = 10
   \<and> message_count (stats_metadata (get_memory_stats (snd (run_chats 1000 appending_summarizer
       (replicate 6 (''hi'', Returns ''ok'')) (init 0))))) = 12"
proof -
  have v: "validate_input 1000 ''hi'' \<and> validate_input_length 1000 ''ok''" by code_simp
  then have h: "\<forall>c\<in>set (replicate 6 (''hi'', ''ok'')).
                  validate_input 1000 (fst c) \<and> validate_input_length 1000 (snd c)"
    by simp
  have calls: "map (\<lambda>c. (fst c, Returns (snd c))) (replicate 6 (''hi'', ''ok''))
                 = replicate 6 (''hi'', Returns ''ok'')"
    by simp
  let ?run = "run_chats 1000 appending_summarizer (replicate 6 (''hi'', Returns ''ok'')) (init 0)"
  note r = run_exchanges [OF h, of appending_summarizer "init 0", unfolded calls]
  from r have ok: "list_all success (fst ?run)" by blast
  from r have mem: "chat_memory (snd ?run)
      = chat_memory (init 0)
        @ concat (map (\<lambda>c. [HumanMessage (py_strip (fst c)), HumanMessage (fst c),
                             AIMessage (snd c), AIMessage (py_strip (snd c))])
            (replicate 6 (''hi'', ''ok'')))"
    by blast
  from r have cnt: "message_count (conversation_metadata (snd ?run))
      = message_count (conversation_metadata (init 0))
        + 2 * int (length (replicate 6 (''hi'', ''ok'')))"
    by blast
  have len: "length (chat_memory (snd ?run)) = 24"
    unfolding mem length_append length_concat_quads by (simp add: init_def)
  have cnt': "message_count (conversation_metadata (snd ?run)) = 12"
    unfolding cnt by (simp add: init_def)
  show ?thesis
    using ok len cnt' by (simp add: get_memory_stats_def)
qed

section \<open>Export\<close>

lemma export_messages_eq:
  "export_messages (fst (export_memory summ clock s))
     = map (export_entry_of clock) (enumerate 0 (chat_memory s))"
  by (simp add: export_memory_def Let_def split: prod.splits)

lemma entries_contents:
  "map entry_content (map (export_entry_of clock) (enumerate n ms)) = map content ms"
  by (induction ms arbitrary: n) (simp_all add: export_entry_of_def)

lemma entries_types:
  "map entry_type (map (export_entry_of clock) (enumerate n ms))
     = map (\<lambda>m. if is_human_message m then ''human'' else ''ai'') ms"
  by (induction ms arbitrary: n) (simp_all add: export_entry_of_def)

lemma entries_timestamps:
  "map entry_timestamp (map (export_entry_of clock) (enumerate n ms))
     = map clock [n..<n + length ms]"
proof -
  have f: "entry_timestamp \<circ> export_entry_of clock = clock \<circ> fst"
    by (rule ext) (simp add: export_entry_of_def)
  have "map entry_timestamp (map (export_entry_of clock) (enumerate n ms))
          = map (clock \<circ> fst) (enumerate n ms)"
    by (simp only: map_map f)
  also have "\<dots> = map clock (map fst (enumerate n ms))"
    by (simp only: map_map)
  also have "\<dots> = map clock [n..<n + length ms]"
    by (simp only: map_fst_enumerate)
  finally show ?thesis .
qed

lemma export_contents:
  "map entry_content (export_messages (fst (export_memory summ clock s)))
     = map content (chat_memory s)"
  unfolding export_messages_eq by (rule entries_contents)

lemma export_types:
  "map entry_type (export_messages (fst (export_memory summ clock s)))
     = map (\<lambda>m. if is_human_message m then ''human'' else ''ai'') (chat_memory s)"
  unfolding export_messages_eq by (rule entries_types)

lemma export_timestamps:
  "map entry_timestamp (export_messages (fst (export_memory summ clock s)))
     = map clock [0..<length (chat_memory s)]"
  unfolding export_messages_eq using entries_timestamps [of clock 0 "chat_memory s"] by simp

text \<open>
  C5, as the code has it. After any session of \<open>chat\<close> calls, \<open>export_memory\<close> lists one
  entry for every stored message, in the order of insertion, with the stored content, the
  tag \<open>human\<close> or \<open>ai\<close> by the kind of the message, and a clock reading taken during
  the export. Nothing is stated about the tags alternating.
\<close>

theorem export_lists_stored_messages:
  "let s = snd (run_chats mx summ calls (init t));
       entries = export_messages (fst (export_memory summ' clock s))
   in length entries = length (chat_memory s)
      \<and> map entry_content entries = map content (chat_memory s)
      \<and> map entry_type entries
          = map (\<lambda>m. if is_human_message m then ''human'' else ''ai'') (chat_memory s)
      \<and> map entry_timestamp entries = map clock [0..<length (chat_memory s)]"
proof -
  let ?s = "snd (run_chats mx summ calls (init t))"
  let ?entries = "export_messages (fst (export_memory summ' clock ?s))"
  have len: "length ?entries = length (chat_memory ?s)"
    by (simp add: export_messages_eq)
  show ?thesis
    unfolding Let_def
    using len export_contents [of summ' clock ?s] export_types [of summ' clock ?s]
      export_timestamps [of summ' clock ?s]
    by blast
qed

theorem export_lists_stored_messages_witness:
  "map entry_type (export_messages (fst (export_memory appending_summarizer (clock_from 50)
       (snd (run_chats 1000 appending_summarizer [(''hi'', Raises ''timeout'')] (init 0))))))
     = [''human'']
   \<and> map entry_timestamp (export_messages (fst (export_memory appending_summarizer (clock_from 50)
       (snd (run_chats 1000 appending_summarizer [(''hi'', Raises ''timeout'')] (init 0))))))
     = [50]"
proof -
  have m: "chat_memory (snd (run_chats 1000 appending_summarizer [(''hi'', Raises ''timeout'')] (init 0)))
             = [HumanMessage ''hi'']"
    by code_simp
  let ?s = "snd (run_chats 1000 appending_summarizer [(''hi'', Raises ''timeout'')] (init 0))"
  let ?entries = "export_messages (fst (export_memory appending_summarizer (clock_from 50) ?s))"
  note th = export_lists_stored_messages
      [of 1000 appending_summarizer "[(''hi'', Raises ''timeout'')]" 0
          appending_summarizer "clock_from 50", unfolded Let_def]
  from th have ty: "map entry_type ?entries
      = map (\<lambda>m. if is_human_message m then ''human'' else ''ai'') (chat_memory ?s)"
    by blast
  from th have ts: "map entry_timestamp ?entries
      = map (clock_from 50) [0..<length (chat_memory ?s)]"
    by blast
  show ?thesis
    unfolding ty ts m by (simp add: clock_from_def)
qed

text \<open>
  The claim as stated fails: a call whose model call raised leaves its human message
  without a reply, and after the next exchange the tags are \<open>human\<close>, \<open>human\<close>,
  \<open>human\<close>, \<open>ai\<close>, \<open>ai\<close>.
\<close>

theorem export_alternation_counterexample:
  "map entry_type (export_messages (fst (export_memory appending_summarizer (clock_from 50)
       (snd (run_chats 1000 appending_summarizer
               [(''Hello'', Raises ''timeout''), (''Hi'', Returns ''ok'')] (init 0))))))
     = [''human'', ''human'', ''human'', ''ai'', ''ai'']
   \<and> \<not> alternates [''human'', ''human'', ''human'', ''ai'', ''ai'']"
  by code_simp

end
